theory Spec2Isabelle
  imports Main
begin

section \<open>Python strings\<close>

text \<open>
  A Python \<open>str\<close> is a sequence of Unicode code points, so a string is a list of code
  points here. \<open>py\<close> embeds an ASCII literal; the emoji of the source's messages are
  written by their code points.
\<close>

type_synonym codepoint = nat
type_synonym pystr = "codepoint list"

definition py :: "string \<Rightarrow> pystr" where
  "py s = map of_char s"

definition NL :: codepoint where "NL = 10"
definition STAR :: codepoint where "STAR = 42"
definition LBRACK :: codepoint where "LBRACK = 91"
definition RBRACK :: codepoint where "RBRACK = 93"

text \<open>
  The characters \<open>str.strip()\<close> removes: the code points for which \<open>str.isspace\<close>
  holds (CPython's ASCII whitespace table and its Unicode whitespace table).
\<close>

definition is_space :: "codepoint \<Rightarrow> bool" where
  "is_space c \<longleftrightarrow>
     (9 \<le> c \<and> c \<le> 13) \<or> (28 \<le> c \<and> c \<le> 32) \<or> c = 133 \<or> c = 160 \<or> c = 5760 \<or>
     (8192 \<le> c \<and> c \<le> 8202) \<or> c = 8232 \<or> c = 8233 \<or> c = 8239 \<or> c = 8287 \<or>
     c = 12288"

definition strip :: "pystr \<Rightarrow> pystr" where
  "strip s = rev (dropWhile is_space (rev (dropWhile is_space s)))"

section \<open>The regular expressions of the source\<close>

text \<open>
  The two patterns of \<open>clean_proposal_text\<close>, \<^verbatim>\<open>\*+\<close> and \<^verbatim>\<open>\[.*?\]\<close>, are
  sequences of single-character atoms, each taken once, one or more times greedily
  (\<open>+\<close>) or zero or more times lazily (\<open>*?\<close>). \<open>match_here\<close> is the backtracking
  matcher of Python's \<open>re\<close> on such a sequence, anchored at the start of the text: it
  returns the text after the first match in the matcher's order of preference. With no
  flag, the dot matches every character but the newline.
\<close>

datatype atom = Lit codepoint | Dot

datatype quant = Once | PlusGreedy | StarLazy

type_synonym regex = "(atom \<times> quant) list"

fun atom_ok :: "atom \<Rightarrow> codepoint \<Rightarrow> bool" where
  "atom_ok (Lit a) c \<longleftrightarrow> c = a"
| "atom_ok Dot c \<longleftrightarrow> c \<noteq> NL"

fun match_here :: "regex \<Rightarrow> pystr \<Rightarrow> pystr option" where
  "match_here [] s = Some s"
| "match_here ((a, Once) # r) [] = None"
| "match_here ((a, Once) # r) (c # cs) = (if atom_ok a c then match_here r cs else None)"
| "match_here ((a, PlusGreedy) # r) [] = None"
| "match_here ((a, PlusGreedy) # r) (c # cs) =
     (if atom_ok a c then
        (case match_here ((a, PlusGreedy) # r) cs of
           Some rest \<Rightarrow> Some rest
         | None \<Rightarrow> match_here r cs)
      else None)"
| "match_here ((a, StarLazy) # r) [] = match_here r []"
| "match_here ((a, StarLazy) # r) (c # cs) =
     (case match_here r (c # cs) of
        Some rest \<Rightarrow> Some rest
      | None \<Rightarrow> (if atom_ok a c then match_here ((a, StarLazy) # r) cs else None))"

text \<open>
  \<open>re.sub(pattern, "", text)\<close>: scanning from the left, every match is dropped and the
  scan goes on after it; a character at which no match starts is kept. Replacing an
  empty match by the empty string changes nothing, so the scan steps over it.
\<close>

function re_sub_empty :: "regex \<Rightarrow> pystr \<Rightarrow> pystr" where
  "re_sub_empty r [] = []"
| "re_sub_empty r (c # cs) =
     (case match_here r (c # cs) of
        Some rest \<Rightarrow>
          (if length rest < length (c # cs) then re_sub_empty r rest
           else c # re_sub_empty r cs)
      | None \<Rightarrow> c # re_sub_empty r cs)"
  by pat_completeness auto
termination
  by (relation "measure (\<lambda>(r, s). length s)") auto

definition star_pattern :: regex where
  "star_pattern = [(Lit STAR, PlusGreedy)]"

definition bracket_pattern :: regex where
  "bracket_pattern = [(Lit LBRACK, Once), (Dot, StarLazy), (Lit RBRACK, Once)]"

section \<open>clean_proposal_text\<close>

definition clean_proposal_text :: "pystr \<Rightarrow> pystr" where
  "clean_proposal_text text =
     (let text = re_sub_empty star_pattern text;
          text = re_sub_empty bracket_pattern text
      in strip text)"

section \<open>The normaliser as the specification words it\<close>

text \<open>
  Step 1 of the specification removes every run of emphasis markers, that is, every
  marker character. Step 2 removes every span from an opening bracket to the next
  closing bracket. Step 3 trims. \<open>next_close\<close> finds the text after the next closing
  bracket, whatever lies before it.
\<close>

definition strip_emphasis :: "pystr \<Rightarrow> pystr" where
  "strip_emphasis s = filter (\<lambda>c. c \<noteq> STAR) s"

fun next_close :: "pystr \<Rightarrow> pystr option" where
  "next_close [] = None"
| "next_close (c # cs) = (if c = RBRACK then Some cs else next_close cs)"

function strip_spans :: "pystr \<Rightarrow> pystr" where
  "strip_spans [] = []"
| "strip_spans (c # cs) =
     (if c = LBRACK then
        (case next_close cs of
           Some rest \<Rightarrow> strip_spans rest
         | None \<Rightarrow> c # strip_spans cs)
      else c # strip_spans cs)"
  by pat_completeness auto
termination
proof (relation "measure length")
  have shorter: "length rest \<le> length cs" if "next_close cs = Some rest" for cs rest
    using that by (induction cs) (auto split: if_splits)
  fix c :: codepoint and cs rest :: pystr
  assume "next_close cs = Some rest"
  then show "(rest, c # cs) \<in> measure length"
    using shorter [of cs rest] by simp
qed auto

definition spec_normalize :: "pystr \<Rightarrow> pystr" where
  "spec_normalize s = strip (strip_spans (strip_emphasis s))"

text \<open>
  The same with spans confined to one line: \<open>line_close\<close> gives up at a newline
  that comes before the closing bracket.
\<close>

fun line_close :: "pystr \<Rightarrow> pystr option" where
  "line_close [] = None"
| "line_close (c # cs) =
     (if c = RBRACK then Some cs else if c = NL then None else line_close cs)"

function strip_line_spans :: "pystr \<Rightarrow> pystr" where
  "strip_line_spans [] = []"
| "strip_line_spans (c # cs) =
     (if c = LBRACK then
        (case line_close cs of
           Some rest \<Rightarrow> strip_line_spans rest
         | None \<Rightarrow> c # strip_line_spans cs)
      else c # strip_line_spans cs)"
  by pat_completeness auto
termination
proof (relation "measure length")
  have shorter: "length rest \<le> length cs" if "line_close cs = Some rest" for cs rest
    using that by (induction cs) (auto split: if_splits)
  fix c :: codepoint and cs rest :: pystr
  assume "line_close cs = Some rest"
  then show "(rest, c # cs) \<in> measure length"
    using shorter [of cs rest] by simp
qed auto

definition line_normalize :: "pystr \<Rightarrow> pystr" where
  "line_normalize s = strip (strip_line_spans (strip_emphasis s))"

text \<open>A text in which no opening bracket can be closed on its line.\<close>

fun no_span :: "pystr \<Rightarrow> bool" where
  "no_span [] \<longleftrightarrow> True"
| "no_span (c # cs) \<longleftrightarrow>
     (if c = LBRACK then line_close cs = None \<and> no_span cs else no_span cs)"

section \<open>The request handler\<close>

text \<open>
  The form's values at the click of the button. \<open>st.number_input\<close> with an integer
  \<open>min_value\<close> yields an integer.
\<close>

datatype style = Formal | Creative

record request =
  client_name :: pystr
  service :: pystr
  budget :: int
  contact_name :: pystr
  contact_email :: pystr
  contact_phone :: pystr
  template :: style

text \<open>
  Exceptions: \<open>Exception msg\<close> stands for any exception deriving from Python's
  \<open>Exception\<close>, with the text \<open>str(e)\<close>. \<open>st.stop()\<close> raises Streamlit's
  \<open>StopException\<close>, which derives from \<open>BaseException\<close>: the clause
  \<open>except Exception\<close> does not catch it, and Streamlit ends the script run on it.
\<close>

datatype exn = Exception pystr | StopException

text \<open>
  The PDF library is opaque: the document object is the sequence of the calls made on
  it, with their arguments.
\<close>

datatype align = AlignC | AlignJ | AlignL

datatype fpdf_call =
    AddPage
  | SetLeftMargin int
  | SetRightMargin int
  | SetTopMargin int
  | AddFont pystr pystr pystr bool
  | SetFont pystr nat
  | Cell int int pystr bool align
  | Ln int
  | MultiCell int int pystr align

type_synonym fpdf = "fpdf_call list"

text \<open>What the handler does to the outside, in order.\<close>

datatype event =
    StWarning pystr
  | StError pystr
  | StSpinner pystr
  | ChatCompletion pystr pystr
  | PdfOutput fpdf pystr
  | StSubheader pystr
  | StWrite pystr
  | StDownloadButton pystr "nat list" pystr pystr
  | StLinkButton pystr pystr
  | StTextInput pystr
  | StSuccess pystr

text \<open>
  The outside of the handler:
  \<^item> \<open>chat_completion model prompt\<close> is the outcome of
    \<open>client.chat.completions.create(...)\<close> and of reading
    \<open>response.choices[0].message.content\<close>: \<open>Inl msg\<close> when an exception is raised,
    else the content, which the API types as an optional string;
  \<open>font_path\<close> and \<open>pdf_path\<close> are the values of the two \<open>os.path.join\<close> calls;
  \<^item> \<open>font_exists\<close> is \<open>os.path.exists(font_path)\<close>;
  \<^item> \<open>pdf_output doc\<close> is the outcome of laying out and writing \<open>doc\<close> (lines 94
    to 116, between which nothing is shown to the user): \<open>Inl msg\<close> when one of the calls
    raises, else the bytes of the file written, which the handler reads back;
  \<^item> \<open>premium_email\<close> is the value of the last text input.
\<close>

record env =
  chat_completion :: "pystr \<Rightarrow> pystr \<Rightarrow> pystr + pystr option"
  font_path :: pystr
  font_exists :: bool
  pdf_path :: pystr
  pdf_output :: "fpdf \<Rightarrow> pystr + nat list"
  premium_email :: pystr

text \<open>\<open>str\<close> of an integer, as the f-string formats the budget.\<close>

fun digits :: "nat \<Rightarrow> pystr" where
  "digits n = (if n < 10 then [48 + n] else digits (n div 10) @ [48 + n mod 10])"

definition str_int :: "int \<Rightarrow> pystr" where
  "str_int i = (if i < 0 then 45 # digits (nat (- i)) else digits (nat i))"

definition QUOTE :: codepoint where "QUOTE = 39"

definition build_prompt :: "request \<Rightarrow> pystr" where
  "build_prompt rq =
     py ''Create a professional business proposal from '' @ [QUOTE] @ contact_name rq @
     [QUOTE] @ py '' to '' @ [QUOTE] @ client_name rq @ [QUOTE] @ py ''. '' @
     py ''The proposal should offer '' @ [QUOTE] @ service rq @ [QUOTE] @
     py '' services for a budget of $'' @ str_int (budget rq) @ py ''. '' @
     py ''Make it clear that this proposal is from the provider (us) to the client (them). '' @
     py ''Include sections: Cover Greeting, Overview, Service Highlights, Pricing, Why Choose Us, and Contact Info. '' @
     py ''Make it polite, structured, client-focused, and at least 1.5 pages long. '' @
     py ''Avoid placeholders like [Your Name] or [Contact Info].''"

definition model_name :: pystr where
  "model_name = py ''gpt-4o-mini''"

definition warning_msg :: pystr where
  "warning_msg = [9888, 65039] @ py '' Please fill all required fields before generating a proposal.''"

definition spinner_msg :: pystr where
  "spinner_msg = [9203] @ py '' Generating your personalized proposal...''"

definition missing_font_msg :: pystr where
  "missing_font_msg =
     [9888, 65039] @ py '' Missing DejaVuSans.ttf! Please place it in a `fonts` folder next to proposal_app.py.''"

definition error_prefix :: pystr where
  "error_prefix = [9888, 65039] @ py '' Error: ''"

text \<open>
  \<open>re.sub\<close> on \<open>None\<close> raises a \<open>TypeError\<close>, an \<open>Exception\<close>; this is its text.
\<close>

definition none_content_msg :: pystr where
  "none_content_msg = py ''expected string or bytes-like object, got '' @ [QUOTE] @ py ''NoneType'' @ [QUOTE]"

definition footer_text :: "pystr \<Rightarrow> pystr \<Rightarrow> pystr \<Rightarrow> pystr" where
  "footer_text name email phone =
     py ''---'' @ [NL] @ py ''Prepared by: '' @ name @ [NL] @ py ''Email: '' @ email @ [NL] @
     py ''Phone: '' @ phone"

definition share_url :: "pystr \<Rightarrow> pystr" where
  "share_url name =
     py ''https://x.com/intent/tweet?text=Check%20out%20my%20personalized%20proposal%20for%20'' @
     name @ py ''!%20Try%20this%20app%20too!''"

text \<open>
  The body of the \<open>try\<close> block: the events it causes and the exception it raises, if
  any.
\<close>

definition try_body :: "env \<Rightarrow> request \<Rightarrow> event list \<times> exn option" where
  "try_body ev rq =
     (let prompt = build_prompt rq;
          called = [ChatCompletion model_name prompt]
      in case chat_completion ev model_name prompt of
           Inl msg \<Rightarrow> (called, Some (Exception msg))
         | Inr None \<Rightarrow> (called, Some (Exception none_content_msg))
         | Inr (Some content) \<Rightarrow>
             (let proposal_text = clean_proposal_text content;
                  pdf = [AddPage, SetLeftMargin 20, SetRightMargin 20, SetTopMargin 15]
              in if \<not> font_exists ev then
                   (called @ [StError missing_font_msg], Some StopException)
                 else
                   (let pdf = pdf @
                          [AddFont (py ''DejaVu'') [] (font_path ev) True,
                           SetFont (py ''DejaVu'') 14,
                           Cell 0 10 (py ''Business Proposal'') True AlignC,
                           Ln 10,
                           SetFont (py ''DejaVu'') 12,
                           MultiCell 0 8 proposal_text AlignJ,
                           Ln 5,
                           SetFont (py ''DejaVu'') 12,
                           MultiCell 0 8
                             (footer_text (contact_name rq) (contact_email rq) (contact_phone rq))
                             AlignL]
                    in case pdf_output ev pdf of
                         Inl msg \<Rightarrow> (called, Some (Exception msg))
                       | Inr data \<Rightarrow>
                           (called @
                            [PdfOutput pdf (pdf_path ev),
                             StSubheader ([128196] @ py '' Generated Proposal''),
                             StWrite proposal_text,
                             StDownloadButton ([11015] @ py '' Download Proposal (PDF)'') data
                               (py ''proposal.pdf'') (py ''application/pdf''),
                             StLinkButton ([128279] @ py '' Share Proposal'')
                               (share_url (client_name rq)),
                             StTextInput
                               ([128140] @ py '' Enter your email for Unlimited Access ($19/mo)'')] @
                            (if premium_email ev \<noteq> []
                             then [StSuccess ([9989] @ py '' Thanks! We'' @ [QUOTE] @
                                     py ''ll contact you about premium access.'')]
                             else []),
                            None))))"

text \<open>
  The handler of the button: the validation, then the \<open>try\<close> block under the spinner,
  with \<open>except Exception\<close>. The second component is the exception that leaves the
  handler.
\<close>

definition fields_missing :: "request \<Rightarrow> bool" where
  "fields_missing rq \<longleftrightarrow>
     client_name rq = [] \<or> service rq = [] \<or> budget rq \<le> 0 \<or> contact_name rq = []"

definition on_generate :: "env \<Rightarrow> request \<Rightarrow> event list \<times> exn option" where
  "on_generate ev rq =
     (if fields_missing rq then ([StWarning warning_msg], None)
      else case try_body ev rq of
             (evs, Some (Exception e)) \<Rightarrow>
               (StSpinner spinner_msg # evs @ [StError (error_prefix @ e)], None)
           | (evs, Some StopException) \<Rightarrow> (StSpinner spinner_msg # evs, Some StopException)
           | (evs, None) \<Rightarrow> (StSpinner spinner_msg # evs, None))"

text \<open>What is read off a run and off a document.\<close>

fun is_chat :: "event \<Rightarrow> bool" where
  "is_chat (ChatCompletion m p) = True"
| "is_chat _ = False"

fun documents :: "event list \<Rightarrow> fpdf list" where
  "documents [] = []"
| "documents (PdfOutput d p # es) = d # documents es"
| "documents (e # es) = documents es"

fun downloads :: "event list \<Rightarrow> nat list list" where
  "downloads [] = []"
| "downloads (StDownloadButton l d f m # es) = d # downloads es"
| "downloads (e # es) = downloads es"

fun cell_texts :: "fpdf \<Rightarrow> pystr list" where
  "cell_texts [] = []"
| "cell_texts (Cell w h t l a # cs) = t # cell_texts cs"
| "cell_texts (c # cs) = cell_texts cs"

fun multi_cell_texts :: "fpdf \<Rightarrow> pystr list" where
  "multi_cell_texts [] = []"
| "multi_cell_texts (MultiCell w h t a # cs) = t # multi_cell_texts cs"
| "multi_cell_texts (c # cs) = multi_cell_texts cs"

fun margin_calls :: "fpdf \<Rightarrow> fpdf_call list" where
  "margin_calls [] = []"
| "margin_calls (SetLeftMargin m # cs) = SetLeftMargin m # margin_calls cs"
| "margin_calls (SetRightMargin m # cs) = SetRightMargin m # margin_calls cs"
| "margin_calls (SetTopMargin m # cs) = SetTopMargin m # margin_calls cs"
| "margin_calls (c # cs) = margin_calls cs"

text \<open>The lines of a text, split at the newlines.\<close>

fun split_lines :: "pystr \<Rightarrow> pystr list" where
  "split_lines [] = [[]]"
| "split_lines (c # cs) =
     (if c = NL then [] # split_lines cs
      else (case split_lines cs of l # ls \<Rightarrow> (c # l) # ls | [] \<Rightarrow> [[c]]))"

text \<open>
  The calls the handler makes on the document when the font is there, as a function of
  what they depend on.
\<close>

definition proposal_document :: "pystr \<Rightarrow> pystr \<Rightarrow> pystr \<Rightarrow> pystr \<Rightarrow> pystr \<Rightarrow> fpdf" where
  "proposal_document fp text name email phone =
     [AddPage, SetLeftMargin 20, SetRightMargin 20, SetTopMargin 15,
      AddFont (py ''DejaVu'') [] fp True,
      SetFont (py ''DejaVu'') 14,
      Cell 0 10 (py ''Business Proposal'') True AlignC,
      Ln 10,
      SetFont (py ''DejaVu'') 12,
      MultiCell 0 8 text AlignJ,
      Ln 5,
      SetFont (py ''DejaVu'') 12,
      MultiCell 0 8 (footer_text name email phone) AlignL]"

text \<open>
  The content of a document: its calls with their arguments, without the place of the
  font file on the host.
\<close>

fun without_font_file :: "fpdf_call \<Rightarrow> fpdf_call" where
  "without_font_file (AddFont family style file uni) = AddFont family style [] uni"
| "without_font_file c = c"

definition document_content :: "fpdf \<Rightarrow> fpdf" where
  "document_content doc = map without_font_file doc"

section \<open>Sample inputs\<close>

definition sample_request :: request where
  "sample_request =
     \<lparr>client_name = py ''Acme'', service = py ''SEO'', budget = 1500,
      contact_name = py ''Bob'', contact_email = py ''bob@example.com'',
      contact_phone = py ''555-0100'', template = Formal\<rparr>"

definition sample_env :: env where
  "sample_env =
     \<lparr>chat_completion = (\<lambda>m p. Inr (Some (py ''**Hello** [Name], welcome!''))),
      font_path = py ''fonts/DejaVuSans.ttf'', font_exists = True,
      pdf_path = py ''proposal.pdf'', pdf_output = (\<lambda>d. Inr (py ''%PDF-1.3'')),
      premium_email = []\<rparr>"

definition other_request :: request where
  "other_request =
     \<lparr>client_name = py ''Globex'', service = py ''Web Development'', budget = 7,
      contact_name = py ''Bob'', contact_email = py ''bob@example.com'',
      contact_phone = py ''555-0100'', template = Creative\<rparr>"

definition other_env :: env where
  "other_env =
     \<lparr>chat_completion = (\<lambda>m p. Inr (Some (py ''Hello , *welcome*!''))),
      font_path = py ''/srv/app/fonts/DejaVuSans.ttf'', font_exists = True,
      pdf_path = py ''/srv/app/proposal.pdf'', pdf_output = (\<lambda>d. Inr (py ''%PDF-1.4'')),
      premium_email = py ''bob@example.com''\<rparr>"

section \<open>The patterns as string functions\<close>

lemma match_star: "match_here star_pattern (c # cs) = (if c = STAR then Some (dropWhile (\<lambda>x. x = STAR) cs) else None)"
  unfolding star_pattern_def
  by (induction cs arbitrary: c) auto

lemma filter_dropWhile_star: "filter (\<lambda>c. c \<noteq> STAR) (dropWhile (\<lambda>x. x = STAR) cs) = filter (\<lambda>c. c \<noteq> STAR) cs"
  by (induction cs) auto

lemma re_sub_star: "re_sub_empty star_pattern s = strip_emphasis s"
proof (induction s rule: length_induct)
  case (1 s)
  show ?case
  proof (cases s)
    case Nil
    then show ?thesis by (simp add: strip_emphasis_def)
  next
    case (Cons c cs)
    show ?thesis
    proof (cases "c = STAR")
      case True
      have len: "length (dropWhile (\<lambda>x. x = STAR) cs) < length s"
        using Cons length_dropWhile_le [of "\<lambda>x. x = STAR" cs] by simp
      with 1 have "re_sub_empty star_pattern (dropWhile (\<lambda>x. x = STAR) cs) = strip_emphasis (dropWhile (\<lambda>x. x = STAR) cs)"
        by blast
      with True Cons len show ?thesis
        by (simp add: match_star strip_emphasis_def filter_dropWhile_star)
    next
      case False
      with 1 Cons show ?thesis
        by (simp add: match_star strip_emphasis_def)
    qed
  qed
qed

lemma match_lazy_close: "match_here [(Dot, StarLazy), (Lit RBRACK, Once)] cs = line_close cs"
  by (induction cs) (auto simp: NL_def RBRACK_def)

lemma match_bracket: "match_here bracket_pattern (c # cs) = (if c = LBRACK then line_close cs else None)"
  unfolding bracket_pattern_def by (simp add: match_lazy_close)

lemma line_close_length: "line_close cs = Some rest \<Longrightarrow> length rest < Suc (length cs)"
  by (induction cs) (auto split: if_splits)

lemma re_sub_bracket: "re_sub_empty bracket_pattern s = strip_line_spans s"
proof (induction s rule: strip_line_spans.induct)
  case 1
  then show ?case by simp
next
  case (2 c cs)
  then show ?case
    by (auto simp: match_bracket split: option.splits dest: line_close_length)
qed

lemma clean_line_normalize: "clean_proposal_text s = line_normalize s"
  by (simp add: clean_proposal_text_def line_normalize_def re_sub_star re_sub_bracket)

section \<open>Texts without spans; trimming\<close>

lemma no_span_fixed: "no_span s \<Longrightarrow> strip_line_spans s = s"
  by (induction s) (auto split: if_splits)

lemma line_close_strip: "line_close (strip_line_spans cs) = Some r \<Longrightarrow> \<exists>r'. line_close cs = Some r'"
proof (induction cs arbitrary: r rule: strip_line_spans.induct)
  case 1
  then show ?case by simp
next
  case (2 c cs)
  then show ?case
    by (auto simp: LBRACK_def RBRACK_def NL_def split: if_splits option.splits)
qed

lemma no_span_strip_line_spans: "no_span (strip_line_spans s)"
proof (induction s rule: strip_line_spans.induct)
  case 1
  then show ?case by simp
next
  case (2 c cs)
  show ?case
  proof (cases "c = LBRACK")
    case True
    show ?thesis
    proof (cases "line_close cs")
      case None
      have "line_close (strip_line_spans cs) = None"
        using line_close_strip [of cs] None by (cases "line_close (strip_line_spans cs)") auto
      with 2 True None show ?thesis by simp
    next
      case (Some rest)
      with 2 True show ?thesis by simp
    qed
  next
    case False
    with 2 show ?thesis by simp
  qed
qed

lemma line_close_append: "line_close a = Some r \<Longrightarrow> line_close (a @ w) = Some (r @ w)"
  by (induction a) (auto split: if_splits)

lemma no_span_prefix: "no_span (a @ w) \<Longrightarrow> no_span a"
proof (induction a)
  case Nil
  then show ?case by simp
next
  case (Cons c a)
  have "line_close a = None" if "line_close (a @ w) = None"
    using that line_close_append [of a _ w] by (cases "line_close a") auto
  with Cons show ?case by (auto split: if_splits)
qed

lemma no_span_suffix: "no_span (a @ b) \<Longrightarrow> no_span b"
  by (induction a) (auto split: if_splits)

lemma strip_decomp: "\<exists>a b. s = a @ strip s @ b"
proof -
  let ?t = "dropWhile is_space s"
  have 1: "s = takeWhile is_space s @ ?t" by simp
  have "strip s @ rev (takeWhile is_space (rev ?t)) =
          rev (takeWhile is_space (rev ?t) @ dropWhile is_space (rev ?t))"
    by (simp only: strip_def rev_append)
  also have "\<dots> = ?t" by (simp only: takeWhile_dropWhile_id rev_rev_ident)
  finally have 2: "?t = strip s @ rev (takeWhile is_space (rev ?t))" by simp
  have "s = takeWhile is_space s @ strip s @ rev (takeWhile is_space (rev ?t))"
    using 1 2 by metis
  then show ?thesis by blast
qed

lemma no_span_strip: "no_span s \<Longrightarrow> no_span (strip s)"
proof -
  assume ns: "no_span s"
  obtain a b where "s = a @ strip s @ b" using strip_decomp by blast
  with ns have "no_span (a @ strip s @ b)" by simp
  then have "no_span (strip s @ b)" by (rule no_span_suffix)
  then show ?thesis by (rule no_span_prefix)
qed

lemma dropWhile_rev_dropWhile:
  assumes "t = [] \<or> \<not> P (hd t)"
  shows "dropWhile P (rev (dropWhile P (rev t))) = rev (dropWhile P (rev t))"
proof (cases "t = []")
  case True
  then show ?thesis by simp
next
  case False
  with assms have nP: "\<not> P (hd t)" by simp
  let ?u = "dropWhile P (rev t)"
  have "hd t \<in> set (rev t)" using False by simp
  then have "?u \<noteq> []" using nP by (auto simp: dropWhile_eq_Nil_conv)
  moreover have "rev t = takeWhile P (rev t) @ ?u" by simp
  ultimately have "last ?u = last (rev t)" by (metis last_appendR)
  then have "last ?u = hd t" using False by (simp add: last_rev)
  then have "hd (rev ?u) = hd t" using \<open>?u \<noteq> []\<close> by (simp add: hd_rev)
  with nP \<open>?u \<noteq> []\<close> show ?thesis
    by (cases "rev ?u") auto
qed

lemma strip_idem: "strip (strip s) = strip s"
proof -
  let ?t = "dropWhile is_space s"
  have "?t = [] \<or> \<not> is_space (hd ?t)"
    by (metis hd_dropWhile)
  then have "dropWhile is_space (strip s) = strip s"
    unfolding strip_def by (rule dropWhile_rev_dropWhile)
  then show ?thesis
    by (simp add: strip_def)
qed

lemma set_strip_line_spans: "set (strip_line_spans s) \<subseteq> set s"
proof (induction s rule: strip_line_spans.induct)
  case 1
  then show ?case by simp
next
  case (2 c cs)
  have sub: "set rest \<subseteq> set cs" if "line_close cs = Some rest" for rest
    using that by (induction cs) (auto split: if_splits)
  show ?case
  proof (cases "c = LBRACK")
    case True
    show ?thesis
    proof (cases "line_close cs")
      case None
      with 2 True show ?thesis by auto
    next
      case (Some rest)
      with 2 True have "set (strip_line_spans (c # cs)) \<subseteq> set rest" by simp
      with sub [OF Some] show ?thesis by auto
    qed
  next
    case False
    with 2 show ?thesis by auto
  qed
qed

lemma set_strip: "set (strip s) \<subseteq> set s"
proof -
  have "set (strip s) \<subseteq> set (dropWhile is_space s)"
    unfolding strip_def using set_dropWhileD by fastforce
  also have "\<dots> \<subseteq> set s" using set_dropWhileD by fastforce
  finally show ?thesis .
qed

lemma star_free_line_normalize: "STAR \<notin> set (line_normalize s)"
proof -
  have "set (line_normalize s) \<subseteq> set (strip_emphasis s)"
    unfolding line_normalize_def using set_strip set_strip_line_spans by blast
  then show ?thesis by (auto simp: strip_emphasis_def)
qed

lemma line_normalize_idem: "line_normalize (line_normalize s) = line_normalize s"
proof -
  have 1: "strip_emphasis (line_normalize s) = line_normalize s"
    using star_free_line_normalize [of s] unfolding strip_emphasis_def
    by (simp add: filter_id_conv) metis
  have "no_span (line_normalize s)"
    unfolding line_normalize_def by (intro no_span_strip no_span_strip_line_spans)
  then have 2: "strip_line_spans (line_normalize s) = line_normalize s"
    by (rule no_span_fixed)
  have "line_normalize (line_normalize s) = strip (line_normalize s)"
    using 1 2 by (simp add: line_normalize_def)
  also have "\<dots> = line_normalize s" by (simp add: line_normalize_def strip_idem)
  finally show ?thesis .
qed

section \<open>Spans across lines\<close>

lemma line_close_blocked:
  "RBRACK \<notin> set u \<Longrightarrow> line_close (u @ NL # t) = None"
  by (induction u) (auto simp: NL_def RBRACK_def)

lemma line_close_app_None:
  "line_close s = None \<Longrightarrow> line_close (a @ s) = map_option (\<lambda>r. r @ s) (line_close a)"
  by (induction a) auto

lemma strip_line_spans_append:
  "line_close s = None \<Longrightarrow> strip_line_spans (a @ s) = strip_line_spans a @ strip_line_spans s"
proof (induction a rule: strip_line_spans.induct)
  case 1
  then show ?case by simp
next
  case (2 c cs)
  then show ?case
    by (cases "line_close cs") (auto simp: line_close_app_None)
qed

lemma strip_line_spans_plain:
  "LBRACK \<notin> set v \<Longrightarrow> strip_line_spans (v @ t) = v @ strip_line_spans t"
  by (induction v) auto

lemma dropWhile_keeps:
  "\<not> P x \<Longrightarrow> \<exists>p'. dropWhile P (p @ x # r) = p' @ x # r"
proof (induction p)
  case Nil
  then show ?case by simp
next
  case (Cons a p)
  then obtain p' where "dropWhile P (p @ x # r) = p' @ x # r" by blast
  then show ?case by (cases "P a") (auto intro: exI [of _ "a # p"])
qed

lemma strip_keeps:
  assumes "\<not> is_space x" "\<not> is_space y"
  shows "\<exists>p' q'. strip (p @ x # m @ y # q) = p' @ x # m @ y # q'"
proof -
  obtain p' where 1: "dropWhile is_space (p @ x # m @ y # q) = p' @ x # m @ y # q"
    using dropWhile_keeps [of is_space x p "m @ y # q"] assms(1) by blast
  have "rev (p' @ x # m @ y # q) = rev q @ y # (rev m @ x # rev p')" by simp
  moreover obtain q' where "dropWhile is_space (rev q @ y # (rev m @ x # rev p')) = q' @ y # (rev m @ x # rev p')"
    using dropWhile_keeps [of is_space y "rev q" "rev m @ x # rev p'"] assms(2) by blast
  ultimately have "strip (p @ x # m @ y # q) = rev (q' @ y # (rev m @ x # rev p'))"
    using 1 by (simp add: strip_def)
  then have "strip (p @ x # m @ y # q) = p' @ x # m @ y # rev q'" by simp
  then show ?thesis by blast
qed

lemma brackets_not_space: "\<not> is_space LBRACK" "\<not> is_space RBRACK"
  by (simp_all add: is_space_def LBRACK_def RBRACK_def)

lemma strip_line_spans_blocked:
  "RBRACK \<notin> set u \<Longrightarrow> strip_line_spans (u @ NL # t) = u @ NL # strip_line_spans t"
proof (induction u)
  case Nil
  then show ?case by (simp add: NL_def LBRACK_def)
next
  case (Cons c u)
  then have "line_close (u @ NL # t) = None" by (simp add: line_close_blocked)
  with Cons show ?case by simp
qed

lemma strip_line_spans_span:
  assumes "RBRACK \<notin> set v1" and "LBRACK \<notin> set v2"
  shows "strip_line_spans (a @ LBRACK # v1 @ NL # v2 @ RBRACK # q) =
         strip_line_spans a @ LBRACK # v1 @ NL # v2 @ RBRACK # strip_line_spans q"
proof -
  have blocked: "line_close (v1 @ NL # v2 @ RBRACK # q) = None"
    using assms(1) by (rule line_close_blocked)
  then have "line_close (LBRACK # v1 @ NL # v2 @ RBRACK # q) = None"
    by (simp add: LBRACK_def RBRACK_def NL_def)
  then have "strip_line_spans (a @ LBRACK # v1 @ NL # v2 @ RBRACK # q) =
             strip_line_spans a @ strip_line_spans (LBRACK # v1 @ NL # v2 @ RBRACK # q)"
    by (rule strip_line_spans_append)
  also have "strip_line_spans (LBRACK # v1 @ NL # v2 @ RBRACK # q) =
             LBRACK # strip_line_spans (v1 @ NL # v2 @ RBRACK # q)"
    using blocked by simp
  also have "strip_line_spans (v1 @ NL # v2 @ RBRACK # q) =
             v1 @ NL # strip_line_spans (v2 @ RBRACK # q)"
    using assms(1) by (rule strip_line_spans_blocked)
  also have "strip_line_spans (v2 @ RBRACK # q) = v2 @ strip_line_spans (RBRACK # q)"
    using assms(2) by (rule strip_line_spans_plain)
  also have "strip_line_spans (RBRACK # q) = RBRACK # strip_line_spans q"
    by (simp add: LBRACK_def RBRACK_def)
  finally show ?thesis .
qed

lemma line_normalize_span:
  assumes "RBRACK \<notin> set u1" and "LBRACK \<notin> set u2"
  shows "\<exists>p q. line_normalize (a @ LBRACK # u1 @ NL # u2 @ RBRACK # b) =
           p @ LBRACK # strip_emphasis (u1 @ NL # u2) @ RBRACK # q"
proof -
  let ?v1 = "strip_emphasis u1" and ?v2 = "strip_emphasis u2"
  have v: "RBRACK \<notin> set ?v1" "LBRACK \<notin> set ?v2"
    using assms by (auto simp: strip_emphasis_def)
  have inner: "strip_emphasis (u1 @ NL # u2) = ?v1 @ NL # ?v2"
    by (simp add: strip_emphasis_def NL_def STAR_def)
  have "strip_emphasis (a @ LBRACK # u1 @ NL # u2 @ RBRACK # b) =
        strip_emphasis a @ LBRACK # ?v1 @ NL # ?v2 @ RBRACK # strip_emphasis b"
    by (simp add: strip_emphasis_def LBRACK_def RBRACK_def STAR_def NL_def)
  then have 1: "line_normalize (a @ LBRACK # u1 @ NL # u2 @ RBRACK # b) =
        strip (strip_line_spans (strip_emphasis a) @ LBRACK # (?v1 @ NL # ?v2) @ RBRACK #
               strip_line_spans (strip_emphasis b))"
    using strip_line_spans_span [OF v] by (simp add: line_normalize_def)
  obtain p q where "strip (strip_line_spans (strip_emphasis a) @ LBRACK # (?v1 @ NL # ?v2) @
        RBRACK # strip_line_spans (strip_emphasis b)) = p @ LBRACK # (?v1 @ NL # ?v2) @ RBRACK # q"
    using strip_keeps [OF brackets_not_space] by blast
  with 1 inner show ?thesis by metis
qed

lemma split_lines_nonempty: "split_lines s \<noteq> []"
  by (induction s) (auto split: list.splits)

lemma split_lines_plain: "NL \<notin> set a \<Longrightarrow> split_lines a = [a]"
  by (induction a) (auto split: list.splits)

lemma split_lines_append:
  "NL \<notin> set a \<Longrightarrow> split_lines (a @ NL # t) = a # split_lines t"
  by (induction a) (auto split: list.splits)

lemma py_no_NL_examples:
  "NL \<notin> set (py ''---'')" "NL \<notin> set (py ''Prepared by: '')"
  "NL \<notin> set (py ''Email: '')" "NL \<notin> set (py ''Phone: '')"
  by (simp_all add: py_def NL_def)

lemma footer_lines:
  assumes "NL \<notin> set name" "NL \<notin> set email" "NL \<notin> set phone"
  shows "split_lines (footer_text name email phone) =
     [py ''---'', py ''Prepared by: '' @ name, py ''Email: '' @ email, py ''Phone: '' @ phone]"
proof -
  have "footer_text name email phone =
     py ''---'' @ NL # ((py ''Prepared by: '' @ name) @ NL # ((py ''Email: '' @ email) @ NL #
     (py ''Phone: '' @ phone)))"
    by (simp add: footer_text_def)
  then show ?thesis
    using assms py_no_NL_examples
    by (simp only: split_lines_append split_lines_plain set_append Un_iff simp_thms)
qed

section \<open>The runs of the handler\<close>

lemma fields_missing_sample: "\<not> fields_missing sample_request"
  by (simp add: fields_missing_def sample_request_def py_def)

lemma on_generate_missing:
  "fields_missing rq \<Longrightarrow> on_generate ev rq = ([StWarning warning_msg], None)"
  by (simp add: on_generate_def)

lemma on_generate_raise:
  assumes "\<not> fields_missing rq"
    and "chat_completion ev model_name (build_prompt rq) = Inl msg"
  shows "on_generate ev rq =
    ([StSpinner spinner_msg, ChatCompletion model_name (build_prompt rq),
      StError (error_prefix @ msg)], None)"
  using assms by (simp add: on_generate_def try_body_def)

lemma on_generate_none:
  assumes "\<not> fields_missing rq"
    and "chat_completion ev model_name (build_prompt rq) = Inr None"
  shows "on_generate ev rq =
    ([StSpinner spinner_msg, ChatCompletion model_name (build_prompt rq),
      StError (error_prefix @ none_content_msg)], None)"
  using assms by (simp add: on_generate_def try_body_def)

lemma on_generate_no_font:
  assumes "\<not> fields_missing rq"
    and "chat_completion ev model_name (build_prompt rq) = Inr (Some content)"
    and "\<not> font_exists ev"
  shows "on_generate ev rq =
    ([StSpinner spinner_msg, ChatCompletion model_name (build_prompt rq),
      StError missing_font_msg], Some StopException)"
  using assms by (simp add: on_generate_def try_body_def)

lemma chat_first:
  assumes "\<not> fields_missing rq"
  shows "\<exists>rest. fst (on_generate ev rq) =
     StSpinner spinner_msg # ChatCompletion model_name (build_prompt rq) # rest
     \<and> filter is_chat rest = []"
  using assms
  by (auto simp: on_generate_def try_body_def Let_def split: sum.splits option.splits)

lemma on_generate_documents:
  assumes "chat_completion ev model_name (build_prompt rq) = Inr (Some content)"
    and "d \<in> set (documents (fst (on_generate ev rq)))"
  shows "d = proposal_document (font_path ev) (clean_proposal_text content)
              (contact_name rq) (contact_email rq) (contact_phone rq)"
  using assms
  by (auto simp: on_generate_def try_body_def proposal_document_def Let_def
      split: if_splits sum.splits)

lemma on_generate_writes:
  assumes "chat_completion ev model_name (build_prompt rq) = Inr (Some content)"
    and "StWrite t \<in> set (fst (on_generate ev rq))"
  shows "t = clean_proposal_text content"
  using assms
  by (auto simp: on_generate_def try_body_def Let_def split: if_splits sum.splits)

lemma on_generate_success:
  assumes "\<not> fields_missing rq"
    and "chat_completion ev model_name (build_prompt rq) = Inr (Some content)"
    and "font_exists ev"
    and "pdf_output ev (proposal_document (font_path ev) (clean_proposal_text content)
              (contact_name rq) (contact_email rq) (contact_phone rq)) = Inr data"
  shows "documents (fst (on_generate ev rq)) =
           [proposal_document (font_path ev) (clean_proposal_text content)
              (contact_name rq) (contact_email rq) (contact_phone rq)]
         \<and> downloads (fst (on_generate ev rq)) = [data]
         \<and> snd (on_generate ev rq) = None"
  using assms
  by (simp add: on_generate_def try_body_def proposal_document_def Let_def)

lemma document_content_proposal:
  "document_content (proposal_document fp text name email phone) =
   proposal_document [] text name email phone"
  by (simp add: document_content_def proposal_document_def)

lemma on_generate_write_fails:
  assumes "\<not> fields_missing rq"
    and "chat_completion ev model_name (build_prompt rq) = Inr (Some content)"
    and "font_exists ev"
    and "pdf_output ev (proposal_document (font_path ev) (clean_proposal_text content)
              (contact_name rq) (contact_email rq) (contact_phone rq)) = Inl msg"
  shows "on_generate ev rq =
    ([StSpinner spinner_msg, ChatCompletion model_name (build_prompt rq),
      StError (error_prefix @ msg)], None)"
  using assms
  by (simp add: on_generate_def try_body_def proposal_document_def Let_def)

lemma on_generate_run:
  assumes "\<not> fields_missing rq"
    and "chat_completion ev model_name (build_prompt rq) = Inr (Some content)"
    and "font_exists ev"
    and "pdf_output ev (proposal_document (font_path ev) (clean_proposal_text content)
              (contact_name rq) (contact_email rq) (contact_phone rq)) = Inr data"
  shows "on_generate ev rq =
    ([StSpinner spinner_msg,
      ChatCompletion model_name (build_prompt rq),
      PdfOutput (proposal_document (font_path ev) (clean_proposal_text content)
              (contact_name rq) (contact_email rq) (contact_phone rq)) (pdf_path ev),
      StSubheader ([128196] @ py '' Generated Proposal''),
      StWrite (clean_proposal_text content),
      StDownloadButton ([11015] @ py '' Download Proposal (PDF)'') data
        (py ''proposal.pdf'') (py ''application/pdf''),
      StLinkButton ([128279] @ py '' Share Proposal'') (share_url (client_name rq)),
      StTextInput ([128140] @ py '' Enter your email for Unlimited Access ($19/mo)'')] @
     (if premium_email ev \<noteq> []
      then [StSuccess ([9989] @ py '' Thanks! We'' @ [QUOTE] @
              py ''ll contact you about premium access.'')]
      else []), None)"
  using assms
  by (simp add: on_generate_def try_body_def proposal_document_def Let_def)

lemma on_generate_no_crash: "snd (on_generate ev rq) \<noteq> Some (Exception e)"
  by (auto simp: on_generate_def split: prod.splits option.splits exn.splits)

lemma no_documents_without_font:
  "\<not> font_exists ev \<Longrightarrow> documents (fst (on_generate ev rq)) = []"
  by (auto simp: on_generate_def try_body_def Let_def split: sum.splits option.splits)

section \<open>The claims on clean_proposal_text\<close>

text \<open>
  C1, as amended. For every input, \<open>clean_proposal_text\<close> is exactly three steps in
  order: every emphasis marker is removed, then every span from an opening bracket to
  the next closing bracket on the same line (no newline in between) is removed with its
  delimiters, then leading and trailing whitespace is trimmed; nothing else changes.
\<close>

theorem clean_proposal_text_three_steps:
  "clean_proposal_text s = strip (strip_line_spans (strip_emphasis s))"
  by (simp add: clean_line_normalize line_normalize_def)

text \<open>
  C1 as stated fails: a span from an opening bracket to the next closing bracket that
  runs over a newline is not removed, where the three steps as the claim words them
  remove it.
\<close>

theorem span_over_newline_not_removed:
  "clean_proposal_text (py ''[a'' @ [NL] @ py ''b]'') = py ''[a'' @ [NL] @ py ''b]''
   \<and> spec_normalize (py ''[a'' @ [NL] @ py ''b]'') = []
   \<and> clean_proposal_text (py ''[a'' @ [NL] @ py ''b]'') \<noteq> spec_normalize (py ''[a'' @ [NL] @ py ''b]'')"
  by (simp add: clean_proposal_text_def star_pattern_def bracket_pattern_def
      spec_normalize_def strip_emphasis_def strip_def is_space_def py_def
      NL_def STAR_def LBRACK_def RBRACK_def)

text \<open>
  C2. \<open>clean_proposal_text\<close> is idempotent: cleaning a cleaned text changes nothing.
\<close>

theorem clean_proposal_text_idempotent:
  "clean_proposal_text (clean_proposal_text x) = clean_proposal_text x"
  by (simp add: clean_line_normalize line_normalize_idem)

text \<open>
  C7. The two examples of the specification: the greeting with emphasis and a
  placeholder, and the empty string.
\<close>

theorem clean_proposal_text_examples:
  "clean_proposal_text (py ''**Hello** [Name], welcome!'') = py ''Hello , welcome!''
   \<and> clean_proposal_text (py '''') = py ''''"
  by (simp add: clean_proposal_text_def py_def star_pattern_def bracket_pattern_def strip_def
      is_space_def NL_def STAR_def LBRACK_def RBRACK_def)

text \<open>
  C9, as amended. For every input containing a bracketed span whose interior includes
  a newline, where no closing bracket comes before that newline and no opening bracket
  after it, the span is left in the output with both its delimiters; of its interior,
  only the emphasis markers are removed, by the first step.
\<close>

theorem span_over_newline_kept:
  assumes "RBRACK \<notin> set u1" and "LBRACK \<notin> set u2"
  shows "\<exists>p q. clean_proposal_text (a @ LBRACK # u1 @ NL # u2 @ RBRACK # b) =
           p @ LBRACK # strip_emphasis (u1 @ NL # u2) @ RBRACK # q"
  using line_normalize_span [OF assms] by (simp add: clean_line_normalize)

theorem span_over_newline_kept_witness:
  "RBRACK \<notin> set (py ''a*[b'') \<and> LBRACK \<notin> set (py ''c'')
   \<and> (\<exists>p q. clean_proposal_text (py ''Dear '' @ LBRACK # py ''a*[b'' @ NL # py ''c'' @ RBRACK # py '','') =
        p @ LBRACK # strip_emphasis (py ''a*[b'' @ NL # py ''c'') @ RBRACK # q)
   \<and> strip_emphasis (py ''a*[b'' @ NL # py ''c'') = py ''a[b'' @ NL # py ''c''"
proof -
  have 1: "RBRACK \<notin> set (py ''a*[b'')" by (simp add: py_def RBRACK_def)
  have 2: "LBRACK \<notin> set (py ''c'')" by (simp add: py_def LBRACK_def)
  have 4: "strip_emphasis (py ''a*[b'' @ NL # py ''c'') = py ''a[b'' @ NL # py ''c''"
    by (simp add: strip_emphasis_def py_def NL_def STAR_def)
  show ?thesis
    using 1 2 4 span_over_newline_kept [OF 1 2, of "py ''Dear ''" "py '',''"] by blast
qed

text \<open>
  C9 as stated fails twice. In the first text the span from the first opening bracket
  to the next closing bracket has a newline inside, and its closing bracket is removed
  as the end of a span that lies on the second line. In the second text the span over
  the newline holds an emphasis marker, which is removed, so that the span is not in
  the output as it was.
\<close>

theorem span_over_newline_changed:
  "clean_proposal_text (py ''[Your'' @ [NL] @ py ''[Name]'') = py ''[Your''
   \<and> RBRACK \<notin> set (clean_proposal_text (py ''[Your'' @ [NL] @ py ''[Name]''))
   \<and> clean_proposal_text (py ''[Your*'' @ [NL] @ py ''Name]'') = py ''[Your'' @ [NL] @ py ''Name]''
   \<and> STAR \<notin> set (clean_proposal_text (py ''[Your*'' @ [NL] @ py ''Name]''))"
  by (simp add: clean_proposal_text_def star_pattern_def bracket_pattern_def
      strip_def is_space_def py_def NL_def STAR_def LBRACK_def RBRACK_def)

section \<open>The claims on the handler\<close>

lemma chat_sample:
  "chat_completion (sample_env\<lparr>font_exists := False\<rparr>) model_name (build_prompt sample_request) =
     Inr (Some (py ''**Hello** [Name], welcome!''))"
  by (simp add: sample_env_def)

lemma sample_values:
  "chat_completion sample_env m p = Inr (Some (py ''**Hello** [Name], welcome!''))"
  "font_exists sample_env"
  "pdf_output sample_env d = Inr (py ''%PDF-1.3'')"
  "font_path sample_env = py ''fonts/DejaVuSans.ttf''"
  by (simp_all add: sample_env_def)

lemma sample_contact:
  "contact_name sample_request = py ''Bob''"
  "contact_email sample_request = py ''bob@example.com''"
  "contact_phone sample_request = py ''555-0100''"
  by (simp_all add: sample_request_def)

lemma other_contact:
  "contact_name other_request = py ''Bob''"
  "contact_email other_request = py ''bob@example.com''"
  "contact_phone other_request = py ''555-0100''"
  "\<not> fields_missing other_request"
  by (simp_all add: other_request_def fields_missing_def py_def)

lemma sample_run_document:
  assumes "\<not> fields_missing rq"
  shows "documents (fst (on_generate sample_env rq)) =
     [proposal_document (py ''fonts/DejaVuSans.ttf'')
        (clean_proposal_text (py ''**Hello** [Name], welcome!''))
        (contact_name rq) (contact_email rq) (contact_phone rq)]"
    and "StWrite (clean_proposal_text (py ''**Hello** [Name], welcome!''))
       \<in> set (fst (on_generate sample_env rq))"
  using assms
  by (simp_all add: on_generate_def try_body_def sample_env_def proposal_document_def Let_def)

lemma proposal_document_parts:
  "cell_texts (proposal_document fp text name email phone) = [py ''Business Proposal'']"
  "multi_cell_texts (proposal_document fp text name email phone) =
     [text, footer_text name email phone]"
  "margin_calls (proposal_document fp text name email phone) =
     [SetLeftMargin 20, SetRightMargin 20, SetTopMargin 15]"
  by (simp_all add: proposal_document_def)

text \<open>
  C3, as amended. For every otherwise valid request, if the font file is absent, the
  handler still invokes the external generation call, once; no document is written and
  no exception escapes as a crash; and when the call returns a text, the handler detects
  the missing font before any text is laid out, shows the error and stops the run
  through Streamlit's stop.
\<close>

theorem missing_font_stops_after_generation:
  assumes "\<not> fields_missing rq" and "\<not> font_exists ev"
  shows "filter is_chat (fst (on_generate ev rq)) = [ChatCompletion model_name (build_prompt rq)]
    \<and> documents (fst (on_generate ev rq)) = []
    \<and> (\<forall>e. snd (on_generate ev rq) \<noteq> Some (Exception e))
    \<and> (\<forall>content. chat_completion ev model_name (build_prompt rq) = Inr (Some content) \<longrightarrow>
          on_generate ev rq =
            ([StSpinner spinner_msg, ChatCompletion model_name (build_prompt rq),
              StError missing_font_msg], Some StopException))"
proof -
  obtain rest where "fst (on_generate ev rq) =
       StSpinner spinner_msg # ChatCompletion model_name (build_prompt rq) # rest"
     and "filter is_chat rest = []"
    using chat_first [OF assms(1)] by blast
  then have "filter is_chat (fst (on_generate ev rq)) =
      [ChatCompletion model_name (build_prompt rq)]" by simp
  moreover have "documents (fst (on_generate ev rq)) = []"
    using assms(2) by (rule no_documents_without_font)
  moreover have "\<forall>e. snd (on_generate ev rq) \<noteq> Some (Exception e)"
    by (simp add: on_generate_no_crash)
  moreover have "\<forall>content. chat_completion ev model_name (build_prompt rq) = Inr (Some content) \<longrightarrow>
          on_generate ev rq =
            ([StSpinner spinner_msg, ChatCompletion model_name (build_prompt rq),
              StError missing_font_msg], Some StopException)"
    using assms by (simp add: on_generate_no_font)
  ultimately show ?thesis by blast
qed

theorem missing_font_stops_after_generation_witness:
  "\<not> fields_missing sample_request
   \<and> \<not> font_exists (sample_env\<lparr>font_exists := False\<rparr>)
   \<and> on_generate (sample_env\<lparr>font_exists := False\<rparr>) sample_request =
       ([StSpinner spinner_msg, ChatCompletion model_name (build_prompt sample_request),
         StError missing_font_msg], Some StopException)
   \<and> documents (fst (on_generate (sample_env\<lparr>font_exists := False\<rparr>) sample_request)) = []"
proof -
  have 1: "\<not> fields_missing sample_request" by (rule fields_missing_sample)
  have 2: "\<not> font_exists (sample_env\<lparr>font_exists := False\<rparr>)" by simp
  show ?thesis
    using 1 2 missing_font_stops_after_generation [OF 1 2] chat_sample by blast
qed

text \<open>
  C3 as stated fails: with the font absent and the request valid, the generation call
  is made all the same, since the font is looked for after it.
\<close>

theorem generation_called_without_font:
  "\<not> fields_missing sample_request
   \<and> \<not> font_exists (sample_env\<lparr>font_exists := False\<rparr>)
   \<and> filter is_chat (fst (on_generate (sample_env\<lparr>font_exists := False\<rparr>) sample_request)) =
       [ChatCompletion model_name (build_prompt sample_request)]"
  by (simp add: fields_missing_sample on_generate_def try_body_def sample_env_def)

text \<open>
  C4. When client name, service or sender name is empty, or the budget is not
  positive, the handler shows the validation warning and does not call the generation
  service; when all three are non-empty and the budget is positive, it builds the
  prompt and calls the service with it.
\<close>

theorem validation_gates_generation:
  "(client_name rq = [] \<or> service rq = [] \<or> contact_name rq = [] \<or> budget rq \<le> 0 \<longrightarrow>
      on_generate ev rq = ([StWarning warning_msg], None)
      \<and> filter is_chat (fst (on_generate ev rq)) = [])
   \<and> (client_name rq \<noteq> [] \<and> service rq \<noteq> [] \<and> contact_name rq \<noteq> [] \<and> budget rq > 0 \<longrightarrow>
      (\<exists>rest. fst (on_generate ev rq) =
         StSpinner spinner_msg # ChatCompletion model_name (build_prompt rq) # rest))"
proof (intro conjI impI)
  assume "client_name rq = [] \<or> service rq = [] \<or> contact_name rq = [] \<or> budget rq \<le> 0"
  then have m: "fields_missing rq" by (auto simp: fields_missing_def)
  then show "on_generate ev rq = ([StWarning warning_msg], None)"
    by (rule on_generate_missing)
  then show "filter is_chat (fst (on_generate ev rq)) = []" by simp
next
  assume "client_name rq \<noteq> [] \<and> service rq \<noteq> [] \<and> contact_name rq \<noteq> [] \<and> budget rq > 0"
  then have "\<not> fields_missing rq" by (auto simp: fields_missing_def)
  then show "\<exists>rest. fst (on_generate ev rq) =
         StSpinner spinner_msg # ChatCompletion model_name (build_prompt rq) # rest"
    using chat_first by blast
qed

theorem validation_gates_generation_witness:
  "budget (sample_request\<lparr>budget := 0\<rparr>) \<le> 0
   \<and> on_generate sample_env (sample_request\<lparr>budget := 0\<rparr>) = ([StWarning warning_msg], None)
   \<and> client_name sample_request \<noteq> [] \<and> service sample_request \<noteq> []
   \<and> contact_name sample_request \<noteq> [] \<and> budget sample_request > 0
   \<and> (\<exists>rest. fst (on_generate sample_env sample_request) =
         StSpinner spinner_msg # ChatCompletion model_name (build_prompt sample_request) # rest)"
proof -
  have 1: "budget (sample_request\<lparr>budget := 0\<rparr>) \<le> 0" by simp
  have 2: "client_name sample_request \<noteq> [] \<and> service sample_request \<noteq> []
     \<and> contact_name sample_request \<noteq> [] \<and> budget sample_request > 0"
    by (simp add: sample_request_def py_def)
  show ?thesis
    using 1 2 validation_gates_generation [of "sample_request\<lparr>budget := 0\<rparr>" sample_env]
      validation_gates_generation [of sample_request sample_env]
    by blast
qed

lemma other_values:
  "chat_completion other_env m p = Inr (Some (py ''Hello , *welcome*!''))"
  "font_exists other_env"
  "pdf_output other_env d = Inr (py ''%PDF-1.4'')"
  "font_path other_env = py ''/srv/app/fonts/DejaVuSans.ttf''"
  by (simp_all add: other_env_def)

lemma clean_samples:
  "clean_proposal_text (py ''**Hello** [Name], welcome!'') = py ''Hello , welcome!''"
  "clean_proposal_text (py ''Hello , *welcome*!'') = py ''Hello , welcome!''"
  by (simp_all add: clean_proposal_text_def py_def star_pattern_def bracket_pattern_def strip_def
      is_space_def NL_def STAR_def LBRACK_def RBRACK_def)

text \<open>
  C5, as amended. For a successful generation response with the font present, the
  handler assembles a document whose title cell holds the literal Business Proposal,
  whose footer is the separator line followed by sender name, email and phone as
  supplied, each on its own line, and whose margins are set to left 20, right 20,
  top 15. When the PDF library writes it, that one document is written and the bytes of
  its file are offered for download, as they are; when the library raises, the error is
  shown and nothing is offered.
\<close>

theorem assembled_document:
  assumes "\<not> fields_missing rq"
    and "chat_completion ev model_name (build_prompt rq) = Inr (Some content)"
    and "font_exists ev"
  shows "\<exists>doc.
      cell_texts doc = [py ''Business Proposal'']
    \<and> multi_cell_texts doc =
        [clean_proposal_text content,
         footer_text (contact_name rq) (contact_email rq) (contact_phone rq)]
    \<and> (NL \<notin> set (contact_name rq) \<and> NL \<notin> set (contact_email rq) \<and> NL \<notin> set (contact_phone rq) \<longrightarrow>
        split_lines (footer_text (contact_name rq) (contact_email rq) (contact_phone rq)) =
          [py ''---'', py ''Prepared by: '' @ contact_name rq,
           py ''Email: '' @ contact_email rq, py ''Phone: '' @ contact_phone rq])
    \<and> margin_calls doc = [SetLeftMargin 20, SetRightMargin 20, SetTopMargin 15]
    \<and> (\<forall>data. pdf_output ev doc = Inr data \<longrightarrow>
          documents (fst (on_generate ev rq)) = [doc]
          \<and> downloads (fst (on_generate ev rq)) = [data]
          \<and> snd (on_generate ev rq) = None)
    \<and> (\<forall>msg. pdf_output ev doc = Inl msg \<longrightarrow>
          on_generate ev rq =
            ([StSpinner spinner_msg, ChatCompletion model_name (build_prompt rq),
              StError (error_prefix @ msg)], None))"
proof -
  let ?doc = "proposal_document (font_path ev) (clean_proposal_text content)
      (contact_name rq) (contact_email rq) (contact_phone rq)"
  have written: "documents (fst (on_generate ev rq)) = [?doc]
          \<and> downloads (fst (on_generate ev rq)) = [data]
          \<and> snd (on_generate ev rq) = None"
    if "pdf_output ev ?doc = Inr data" for data
    using on_generate_success [OF assms that] .
  have failed: "on_generate ev rq =
            ([StSpinner spinner_msg, ChatCompletion model_name (build_prompt rq),
              StError (error_prefix @ msg)], None)"
    if "pdf_output ev ?doc = Inl msg" for msg
    using on_generate_write_fails [OF assms that] .
  show ?thesis
    using written failed proposal_document_parts [of "font_path ev"] footer_lines
    by (intro exI [of _ ?doc]) blast
qed

theorem assembled_document_witness:
  "\<not> fields_missing sample_request
   \<and> chat_completion sample_env model_name (build_prompt sample_request) =
       Inr (Some (py ''**Hello** [Name], welcome!''))
   \<and> font_exists sample_env
   \<and> NL \<notin> set (contact_name sample_request) \<and> NL \<notin> set (contact_email sample_request)
   \<and> NL \<notin> set (contact_phone sample_request)
   \<and> (\<exists>doc. pdf_output sample_env doc = Inr (py ''%PDF-1.3'')
        \<and> documents (fst (on_generate sample_env sample_request)) = [doc]
        \<and> downloads (fst (on_generate sample_env sample_request)) = [py ''%PDF-1.3'']
        \<and> cell_texts doc = [py ''Business Proposal'']
        \<and> multi_cell_texts doc =
            [clean_proposal_text (py ''**Hello** [Name], welcome!''),
             footer_text (py ''Bob'') (py ''bob@example.com'') (py ''555-0100'')]
        \<and> split_lines (footer_text (py ''Bob'') (py ''bob@example.com'') (py ''555-0100'')) =
            [py ''---'', py ''Prepared by: '' @ py ''Bob'',
             py ''Email: '' @ py ''bob@example.com'', py ''Phone: '' @ py ''555-0100''])"
proof -
  have 1: "\<not> fields_missing sample_request" by (rule fields_missing_sample)
  have 2: "chat_completion sample_env model_name (build_prompt sample_request) =
       Inr (Some (py ''**Hello** [Name], welcome!''))" by (rule sample_values)
  have 3: "font_exists sample_env" by (rule sample_values)
  have 5: "NL \<notin> set (contact_name sample_request) \<and> NL \<notin> set (contact_email sample_request)
     \<and> NL \<notin> set (contact_phone sample_request)"
    by (simp add: sample_contact py_def NL_def)
  have out: "pdf_output sample_env d = Inr (py ''%PDF-1.3'')" for d by (rule sample_values)
  from assembled_document [OF 1 2 3] obtain doc where
    d: "cell_texts doc = [py ''Business Proposal'']"
      "multi_cell_texts doc =
        [clean_proposal_text (py ''**Hello** [Name], welcome!''),
         footer_text (contact_name sample_request) (contact_email sample_request)
           (contact_phone sample_request)]"
      "NL \<notin> set (contact_name sample_request) \<and> NL \<notin> set (contact_email sample_request)
        \<and> NL \<notin> set (contact_phone sample_request) \<longrightarrow>
        split_lines (footer_text (contact_name sample_request) (contact_email sample_request)
           (contact_phone sample_request)) =
          [py ''---'', py ''Prepared by: '' @ contact_name sample_request,
           py ''Email: '' @ contact_email sample_request,
           py ''Phone: '' @ contact_phone sample_request]"
      "\<forall>data. pdf_output sample_env doc = Inr data \<longrightarrow>
          documents (fst (on_generate sample_env sample_request)) = [doc]
          \<and> downloads (fst (on_generate sample_env sample_request)) = [data]
          \<and> snd (on_generate sample_env sample_request) = None"
    by blast
  from d(4) out have "documents (fst (on_generate sample_env sample_request)) = [doc]
          \<and> downloads (fst (on_generate sample_env sample_request)) = [py ''%PDF-1.3'']"
    by blast
  with d(1,2,3) 5 out have "pdf_output sample_env doc = Inr (py ''%PDF-1.3'')
        \<and> documents (fst (on_generate sample_env sample_request)) = [doc]
        \<and> downloads (fst (on_generate sample_env sample_request)) = [py ''%PDF-1.3'']
        \<and> cell_texts doc = [py ''Business Proposal'']
        \<and> multi_cell_texts doc =
            [clean_proposal_text (py ''**Hello** [Name], welcome!''),
             footer_text (py ''Bob'') (py ''bob@example.com'') (py ''555-0100'')]
        \<and> split_lines (footer_text (py ''Bob'') (py ''bob@example.com'') (py ''555-0100'')) =
            [py ''---'', py ''Prepared by: '' @ py ''Bob'',
             py ''Email: '' @ py ''bob@example.com'', py ''Phone: '' @ py ''555-0100'']"
    by (simp add: sample_contact)
  then show ?thesis using 1 2 3 5 by blast
qed

text \<open>
  C5 as stated fails: with a successful generation response and the font present, a
  write that raises leaves no document and no download, and a file that reads back
  empty is offered as an empty download.
\<close>

theorem no_document_when_write_fails:
  "\<not> fields_missing sample_request
   \<and> chat_completion (sample_env\<lparr>pdf_output := \<lambda>d. Inl (py ''Permission denied'')\<rparr>)
        model_name (build_prompt sample_request) = Inr (Some (py ''**Hello** [Name], welcome!''))
   \<and> font_exists (sample_env\<lparr>pdf_output := \<lambda>d. Inl (py ''Permission denied'')\<rparr>)
   \<and> on_generate (sample_env\<lparr>pdf_output := \<lambda>d. Inl (py ''Permission denied'')\<rparr>) sample_request =
       ([StSpinner spinner_msg, ChatCompletion model_name (build_prompt sample_request),
         StError (error_prefix @ py ''Permission denied'')], None)
   \<and> documents (fst (on_generate (sample_env\<lparr>pdf_output := \<lambda>d. Inl (py ''Permission denied'')\<rparr>)
        sample_request)) = []
   \<and> downloads (fst (on_generate (sample_env\<lparr>pdf_output := \<lambda>d. Inl (py ''Permission denied'')\<rparr>)
        sample_request)) = []
   \<and> downloads (fst (on_generate (sample_env\<lparr>pdf_output := \<lambda>d. Inr []\<rparr>) sample_request)) = [[]]"
  by (simp add: fields_missing_sample on_generate_def try_body_def sample_env_def Let_def)

text \<open>
  C6. The normalised text a run shows is \<open>clean_proposal_text\<close> of the generated
  text, whatever the request and the outside are, so that two runs on the same generated
  text show the same; two runs with the same normalised text and the same sender name,
  email and phone write documents of the same content (all calls and their arguments,
  but for the location of the font file); and the outside events of a run that writes
  its document are exactly the ones listed, none of them between the generation call
  and the writing of the document.
\<close>

theorem normalized_and_document_determined:
  assumes "chat_completion ev1 model_name (build_prompt rq1) = Inr (Some c1)"
    and "chat_completion ev2 model_name (build_prompt rq2) = Inr (Some c2)"
  shows "(StWrite t1 \<in> set (fst (on_generate ev1 rq1)) \<longrightarrow> t1 = clean_proposal_text c1)
    \<and> (c1 = c2 \<and> StWrite t1 \<in> set (fst (on_generate ev1 rq1))
          \<and> StWrite t2 \<in> set (fst (on_generate ev2 rq2)) \<longrightarrow> t2 = t1)
    \<and> (clean_proposal_text c1 = clean_proposal_text c2
        \<and> contact_name rq1 = contact_name rq2 \<and> contact_email rq1 = contact_email rq2
        \<and> contact_phone rq1 = contact_phone rq2
        \<and> d1 \<in> set (documents (fst (on_generate ev1 rq1)))
        \<and> d2 \<in> set (documents (fst (on_generate ev2 rq2))) \<longrightarrow>
          document_content d1 = document_content d2
          \<and> cell_texts d1 = cell_texts d2
          \<and> multi_cell_texts d1 = multi_cell_texts d2
          \<and> margin_calls d1 = margin_calls d2)
    \<and> (\<forall>data. \<not> fields_missing rq1 \<and> font_exists ev1
          \<and> pdf_output ev1 (proposal_document (font_path ev1) (clean_proposal_text c1)
               (contact_name rq1) (contact_email rq1) (contact_phone rq1)) = Inr data \<longrightarrow>
          fst (on_generate ev1 rq1) =
            [StSpinner spinner_msg,
             ChatCompletion model_name (build_prompt rq1),
             PdfOutput (proposal_document (font_path ev1) (clean_proposal_text c1)
               (contact_name rq1) (contact_email rq1) (contact_phone rq1)) (pdf_path ev1),
             StSubheader ([128196] @ py '' Generated Proposal''),
             StWrite (clean_proposal_text c1),
             StDownloadButton ([11015] @ py '' Download Proposal (PDF)'') data
               (py ''proposal.pdf'') (py ''application/pdf''),
             StLinkButton ([128279] @ py '' Share Proposal'') (share_url (client_name rq1)),
             StTextInput ([128140] @ py '' Enter your email for Unlimited Access ($19/mo)'')] @
            (if premium_email ev1 \<noteq> []
             then [StSuccess ([9989] @ py '' Thanks! We'' @ [QUOTE] @
                     py ''ll contact you about premium access.'')]
             else []))"
proof -
  have text1: "t = clean_proposal_text c1" if "StWrite t \<in> set (fst (on_generate ev1 rq1))" for t
    using on_generate_writes [OF assms(1) that] .
  have text2: "t = clean_proposal_text c2" if "StWrite t \<in> set (fst (on_generate ev2 rq2))" for t
    using on_generate_writes [OF assms(2) that] .
  have docs: "document_content d1 = document_content d2
          \<and> cell_texts d1 = cell_texts d2
          \<and> multi_cell_texts d1 = multi_cell_texts d2
          \<and> margin_calls d1 = margin_calls d2"
    if "clean_proposal_text c1 = clean_proposal_text c2
        \<and> contact_name rq1 = contact_name rq2 \<and> contact_email rq1 = contact_email rq2
        \<and> contact_phone rq1 = contact_phone rq2
        \<and> d1 \<in> set (documents (fst (on_generate ev1 rq1)))
        \<and> d2 \<in> set (documents (fst (on_generate ev2 rq2)))"
  proof -
    from that have "d1 = proposal_document (font_path ev1) (clean_proposal_text c1)
              (contact_name rq1) (contact_email rq1) (contact_phone rq1)"
      and "d2 = proposal_document (font_path ev2) (clean_proposal_text c2)
              (contact_name rq2) (contact_email rq2) (contact_phone rq2)"
      using on_generate_documents [OF assms(1)] on_generate_documents [OF assms(2)] by blast+
    with that show ?thesis
      by (simp add: document_content_proposal proposal_document_parts)
  qed
  have run: "fst (on_generate ev1 rq1) =
            [StSpinner spinner_msg,
             ChatCompletion model_name (build_prompt rq1),
             PdfOutput (proposal_document (font_path ev1) (clean_proposal_text c1)
               (contact_name rq1) (contact_email rq1) (contact_phone rq1)) (pdf_path ev1),
             StSubheader ([128196] @ py '' Generated Proposal''),
             StWrite (clean_proposal_text c1),
             StDownloadButton ([11015] @ py '' Download Proposal (PDF)'') data
               (py ''proposal.pdf'') (py ''application/pdf''),
             StLinkButton ([128279] @ py '' Share Proposal'') (share_url (client_name rq1)),
             StTextInput ([128140] @ py '' Enter your email for Unlimited Access ($19/mo)'')] @
            (if premium_email ev1 \<noteq> []
             then [StSuccess ([9989] @ py '' Thanks! We'' @ [QUOTE] @
                     py ''ll contact you about premium access.'')]
             else [])"
    if "\<not> fields_missing rq1 \<and> font_exists ev1
          \<and> pdf_output ev1 (proposal_document (font_path ev1) (clean_proposal_text c1)
               (contact_name rq1) (contact_email rq1) (contact_phone rq1)) = Inr data" for data
  proof -
    from that have "on_generate ev1 rq1 = (
            [StSpinner spinner_msg,
             ChatCompletion model_name (build_prompt rq1),
             PdfOutput (proposal_document (font_path ev1) (clean_proposal_text c1)
               (contact_name rq1) (contact_email rq1) (contact_phone rq1)) (pdf_path ev1),
             StSubheader ([128196] @ py '' Generated Proposal''),
             StWrite (clean_proposal_text c1),
             StDownloadButton ([11015] @ py '' Download Proposal (PDF)'') data
               (py ''proposal.pdf'') (py ''application/pdf''),
             StLinkButton ([128279] @ py '' Share Proposal'') (share_url (client_name rq1)),
             StTextInput ([128140] @ py '' Enter your email for Unlimited Access ($19/mo)'')] @
            (if premium_email ev1 \<noteq> []
             then [StSuccess ([9989] @ py '' Thanks! We'' @ [QUOTE] @
                     py ''ll contact you about premium access.'')]
             else []), None)"
      using on_generate_run [OF _ assms(1)] by blast
    then show ?thesis by (simp only: fst_conv)
  qed
  show ?thesis
  proof (intro conjI)
    show "StWrite t1 \<in> set (fst (on_generate ev1 rq1)) \<longrightarrow> t1 = clean_proposal_text c1"
      using text1 by blast
    show "c1 = c2 \<and> StWrite t1 \<in> set (fst (on_generate ev1 rq1))
          \<and> StWrite t2 \<in> set (fst (on_generate ev2 rq2)) \<longrightarrow> t2 = t1"
      using text1 text2 by blast
  qed (use docs run in blast)+
qed

theorem normalized_and_document_determined_witness:
  "chat_completion sample_env model_name (build_prompt sample_request) =
      Inr (Some (py ''**Hello** [Name], welcome!''))
   \<and> chat_completion other_env model_name (build_prompt other_request) =
      Inr (Some (py ''Hello , *welcome*!''))
   \<and> clean_proposal_text (py ''**Hello** [Name], welcome!'') =
       clean_proposal_text (py ''Hello , *welcome*!'')
   \<and> client_name sample_request \<noteq> client_name other_request
   \<and> font_path sample_env \<noteq> font_path other_env
   \<and> documents (fst (on_generate sample_env sample_request)) \<noteq> []
   \<and> documents (fst (on_generate other_env other_request)) \<noteq> []
   \<and> document_content (hd (documents (fst (on_generate sample_env sample_request)))) =
       document_content (hd (documents (fst (on_generate other_env other_request))))
   \<and> StWrite (py ''Hello , welcome!'') \<in> set (fst (on_generate sample_env sample_request))"
proof -
  let ?c1 = "py ''**Hello** [Name], welcome!''"
  let ?c2 = "py ''Hello , *welcome*!''"
  let ?run1 = "on_generate sample_env sample_request"
  let ?run2 = "on_generate other_env other_request"
  have 1: "chat_completion sample_env model_name (build_prompt sample_request) = Inr (Some ?c1)"
    by (rule sample_values)
  have 2: "chat_completion other_env model_name (build_prompt other_request) = Inr (Some ?c2)"
    by (rule other_values)
  have 3: "clean_proposal_text ?c1 = clean_proposal_text ?c2"
    by (simp only: clean_samples)
  have 4: "client_name sample_request \<noteq> client_name other_request"
    by (simp add: sample_request_def other_request_def py_def)
  have 5: "font_path sample_env \<noteq> font_path other_env"
    by (simp add: sample_values other_values py_def)
  have valid1: "\<not> fields_missing sample_request" by (rule fields_missing_sample)
  have valid2: "\<not> fields_missing other_request" by (rule other_contact)
  have out1: "pdf_output sample_env (proposal_document (font_path sample_env)
       (clean_proposal_text ?c1) (contact_name sample_request) (contact_email sample_request)
       (contact_phone sample_request)) = Inr (py ''%PDF-1.3'')"
    by (rule sample_values)
  have out2: "pdf_output other_env (proposal_document (font_path other_env)
       (clean_proposal_text ?c2) (contact_name other_request) (contact_email other_request)
       (contact_phone other_request)) = Inr (py ''%PDF-1.4'')"
    by (rule other_values)
  have d1: "documents (fst ?run1) \<noteq> []"
    using on_generate_success [OF valid1 1 sample_values(2) out1] by simp
  have d2: "documents (fst ?run2) \<noteq> []"
    using on_generate_success [OF valid2 2 other_values(2) out2] by simp
  have 6: "contact_name sample_request = contact_name other_request
      \<and> contact_email sample_request = contact_email other_request
      \<and> contact_phone sample_request = contact_phone other_request"
    by (simp add: sample_contact other_contact)
  note main = normalized_and_document_determined [OF 1 2,
      of "py ''Hello , welcome!''" _ "hd (documents (fst ?run1))" "hd (documents (fst ?run2))"]
  have 7: "document_content (hd (documents (fst ?run1))) =
      document_content (hd (documents (fst ?run2)))"
    using main 3 6 d1 d2 by simp
  have "fst ?run1 = [StSpinner spinner_msg,
             ChatCompletion model_name (build_prompt sample_request),
             PdfOutput (proposal_document (font_path sample_env) (clean_proposal_text ?c1)
               (contact_name sample_request) (contact_email sample_request)
               (contact_phone sample_request)) (pdf_path sample_env),
             StSubheader ([128196] @ py '' Generated Proposal''),
             StWrite (clean_proposal_text ?c1),
             StDownloadButton ([11015] @ py '' Download Proposal (PDF)'') (py ''%PDF-1.3'')
               (py ''proposal.pdf'') (py ''application/pdf''),
             StLinkButton ([128279] @ py '' Share Proposal'')
               (share_url (client_name sample_request)),
             StTextInput ([128140] @ py '' Enter your email for Unlimited Access ($19/mo)'')] @
            (if premium_email sample_env \<noteq> []
             then [StSuccess ([9989] @ py '' Thanks! We'' @ [QUOTE] @
                     py ''ll contact you about premium access.'')]
             else [])"
    using main valid1 sample_values(2) out1 by blast
  then have 8: "StWrite (py ''Hello , welcome!'') \<in> set (fst ?run1)"
    by (simp add: clean_samples)
  show ?thesis using 1 2 3 4 5 d1 d2 7 8 by blast
qed

text \<open>
  C8. If the generation call raises, the handler catches the exception, shows one
  error message carrying its text, lets no exception escape, and writes no document
  and offers no download.
\<close>

theorem generation_failure_reported:
  assumes "\<not> fields_missing rq"
    and "chat_completion ev model_name (build_prompt rq) = Inl msg"
  shows "on_generate ev rq =
      ([StSpinner spinner_msg, ChatCompletion model_name (build_prompt rq),
        StError (error_prefix @ msg)], None)
    \<and> documents (fst (on_generate ev rq)) = []
    \<and> downloads (fst (on_generate ev rq)) = []"
  using on_generate_raise [OF assms] by simp

theorem generation_failure_reported_witness:
  "\<not> fields_missing sample_request
   \<and> chat_completion (sample_env\<lparr>chat_completion := \<lambda>m p. Inl (py ''Connection error.'')\<rparr>)
        model_name (build_prompt sample_request) = Inl (py ''Connection error.'')
   \<and> on_generate (sample_env\<lparr>chat_completion := \<lambda>m p. Inl (py ''Connection error.'')\<rparr>)
        sample_request =
      ([StSpinner spinner_msg, ChatCompletion model_name (build_prompt sample_request),
        StError (error_prefix @ py ''Connection error.'')], None)"
proof -
  have 1: "\<not> fields_missing sample_request" by (rule fields_missing_sample)
  have 2: "chat_completion (sample_env\<lparr>chat_completion := \<lambda>m p. Inl (py ''Connection error.'')\<rparr>)
        model_name (build_prompt sample_request) = Inl (py ''Connection error.'')" by simp
  show ?thesis
    using 1 2 generation_failure_reported [OF 1 2] by blast
qed

text \<open>
  C10. Sender email and phone are not validated: for a request with non-empty client
  name, service and sender name and a positive budget, of which the email or the phone
  is empty, the handler still calls the generation service and, when the call returns
  a text, the font is present and the document is written, assembles the document with
  the footer lines for email and phone, which carry an empty value where the field is
  empty.
\<close>

theorem email_phone_not_validated:
  assumes "client_name rq \<noteq> []" and "service rq \<noteq> []" and "contact_name rq \<noteq> []"
    and "budget rq > 0"
    and "contact_email rq = [] \<or> contact_phone rq = []"
  shows "(\<exists>rest. fst (on_generate ev rq) =
           StSpinner spinner_msg # ChatCompletion model_name (build_prompt rq) # rest)
    \<and> (\<forall>content data.
         chat_completion ev model_name (build_prompt rq) = Inr (Some content)
         \<and> font_exists ev
         \<and> pdf_output ev (proposal_document (font_path ev) (clean_proposal_text content)
               (contact_name rq) (contact_email rq) (contact_phone rq)) = Inr data \<longrightarrow>
         (\<exists>doc. documents (fst (on_generate ev rq)) = [doc]
            \<and> multi_cell_texts doc =
                [clean_proposal_text content,
                 footer_text (contact_name rq) (contact_email rq) (contact_phone rq)]))
    \<and> (NL \<notin> set (contact_name rq) \<and> NL \<notin> set (contact_email rq)
        \<and> NL \<notin> set (contact_phone rq) \<longrightarrow>
        split_lines (footer_text (contact_name rq) (contact_email rq) (contact_phone rq)) =
          [py ''---'', py ''Prepared by: '' @ contact_name rq,
           py ''Email: '' @ contact_email rq, py ''Phone: '' @ contact_phone rq]
        \<and> (contact_email rq = [] \<longrightarrow>
             split_lines (footer_text (contact_name rq) (contact_email rq) (contact_phone rq)) ! 2 =
               py ''Email: '')
        \<and> (contact_phone rq = [] \<longrightarrow>
             split_lines (footer_text (contact_name rq) (contact_email rq) (contact_phone rq)) ! 3 =
               py ''Phone: ''))"
proof -
  have valid: "\<not> fields_missing rq"
    using assms(1-4) by (simp add: fields_missing_def)
  have a: "\<exists>rest. fst (on_generate ev rq) =
           StSpinner spinner_msg # ChatCompletion model_name (build_prompt rq) # rest"
    using chat_first [OF valid] by blast
  have b: "\<exists>doc. documents (fst (on_generate ev rq)) = [doc]
            \<and> multi_cell_texts doc =
                [clean_proposal_text content,
                 footer_text (contact_name rq) (contact_email rq) (contact_phone rq)]"
    if "chat_completion ev model_name (build_prompt rq) = Inr (Some content)"
      and "font_exists ev"
      and "pdf_output ev (proposal_document (font_path ev) (clean_proposal_text content)
               (contact_name rq) (contact_email rq) (contact_phone rq)) = Inr data"
    for content data
    using on_generate_success [OF valid that] by (simp add: proposal_document_parts)
  have c: "split_lines (footer_text (contact_name rq) (contact_email rq) (contact_phone rq)) =
          [py ''---'', py ''Prepared by: '' @ contact_name rq,
           py ''Email: '' @ contact_email rq, py ''Phone: '' @ contact_phone rq]"
    if "NL \<notin> set (contact_name rq) \<and> NL \<notin> set (contact_email rq)
        \<and> NL \<notin> set (contact_phone rq)"
    using footer_lines that by blast
  have d: "(contact_email rq = [] \<longrightarrow>
             split_lines (footer_text (contact_name rq) (contact_email rq) (contact_phone rq)) ! 2 =
               py ''Email: '')
        \<and> (contact_phone rq = [] \<longrightarrow>
             split_lines (footer_text (contact_name rq) (contact_email rq) (contact_phone rq)) ! 3 =
               py ''Phone: '')"
    if "NL \<notin> set (contact_name rq) \<and> NL \<notin> set (contact_email rq)
        \<and> NL \<notin> set (contact_phone rq)"
    by (simp only: c [OF that]) (simp add: numeral_3_eq_3)
  show ?thesis using a b c d by blast
qed

theorem email_phone_not_validated_witness:
  "client_name (sample_request\<lparr>contact_email := [], contact_phone := []\<rparr>) \<noteq> []
   \<and> service (sample_request\<lparr>contact_email := [], contact_phone := []\<rparr>) \<noteq> []
   \<and> contact_name (sample_request\<lparr>contact_email := [], contact_phone := []\<rparr>) \<noteq> []
   \<and> budget (sample_request\<lparr>contact_email := [], contact_phone := []\<rparr>) > 0
   \<and> contact_email (sample_request\<lparr>contact_email := [], contact_phone := []\<rparr>) = []
   \<and> contact_phone (sample_request\<lparr>contact_email := [], contact_phone := []\<rparr>) = []
   \<and> NL \<notin> set (contact_name (sample_request\<lparr>contact_email := [], contact_phone := []\<rparr>))
   \<and> (\<exists>doc. documents (fst (on_generate sample_env
                 (sample_request\<lparr>contact_email := [], contact_phone := []\<rparr>))) = [doc]
        \<and> multi_cell_texts doc =
            [clean_proposal_text (py ''**Hello** [Name], welcome!''),
             footer_text (py ''Bob'') [] []])
   \<and> split_lines (footer_text (py ''Bob'') [] []) =
        [py ''---'', py ''Prepared by: '' @ py ''Bob'', py ''Email: '', py ''Phone: '']"
proof -
  let ?rq = "sample_request\<lparr>contact_email := [], contact_phone := []\<rparr>"
  have h: "client_name ?rq \<noteq> []" "service ?rq \<noteq> []" "contact_name ?rq \<noteq> []"
    "budget ?rq > 0" "contact_email ?rq = [] \<or> contact_phone ?rq = []"
    by (simp_all add: sample_request_def py_def)
  have e: "contact_email ?rq = []" "contact_phone ?rq = []" by simp_all
  have n: "contact_name ?rq = py ''Bob''" by (simp add: sample_request_def)
  have nl: "NL \<notin> set (py ''Bob'')" by (simp add: py_def NL_def)
  have run: "chat_completion sample_env model_name (build_prompt ?rq) =
        Inr (Some (py ''**Hello** [Name], welcome!''))
      \<and> font_exists sample_env
      \<and> pdf_output sample_env (proposal_document (font_path sample_env)
           (clean_proposal_text (py ''**Hello** [Name], welcome!''))
           (contact_name ?rq) (contact_email ?rq) (contact_phone ?rq)) =
         Inr (py ''%PDF-1.3'')"
    by (simp add: sample_values)
  have "(\<exists>doc. documents (fst (on_generate sample_env ?rq)) = [doc]
        \<and> multi_cell_texts doc =
            [clean_proposal_text (py ''**Hello** [Name], welcome!''),
             footer_text (py ''Bob'') [] []])
     \<and> split_lines (footer_text (py ''Bob'') [] []) =
        [py ''---'', py ''Prepared by: '' @ py ''Bob'', py ''Email: '', py ''Phone: '']"
    using run nl email_phone_not_validated [OF h, of sample_env] unfolding n e
    by (simp del: split_lines.simps)
  then show ?thesis using h(1-4) e nl n by simp
qed

end
